theory Spec2Isabelle
  imports Main "HOL-Library.Word"
begin

section \<open>The cluster actuator of the Azure provider\<close>

text \<open>
  The source is \<^verbatim>\<open>pkg/cloud/azure/actuators/cluster/actuator.go\<close>: the methods
  \<^verbatim>\<open>Reconcile\<close> and \<^verbatim>\<open>Delete\<close> of \<^verbatim>\<open>Actuator\<close>. Both acquire a scope, call
  services built on the scope in a fixed order and release the scope through a deferred
  \<^verbatim>\<open>Close\<close>. The scope and the services are other packages of the repository; here they
  are parameters (\<open>env\<close>), arbitrary functions that read and change what they can reach.
  They return; a collaborator that panics, and a nil receiver or argument, are outside the
  model.
\<close>

subsection \<open>Errors\<close>

text \<open>
  \<^verbatim>\<open>time.Duration\<close> is Go's \<^verbatim>\<open>int64\<close>, a count of nanoseconds, read with \<open>sint\<close>.
  An interface value or a pointer is a reference.
\<close>

type_synonym Duration = "64 word"
type_synonym ref = nat

text \<open>
  Go's \<^verbatim>\<open>error\<close> values, as far as this file builds or receives them. A value of type
  \<^verbatim>\<open>error\<close> is \<open>error option\<close>, \<open>None\<close> being \<^verbatim>\<open>nil\<close>.
  \<^item> \<open>Opaque m\<close>: an error made elsewhere, known by its message;
  \<^item> \<open>Errorf f args\<close>: \<^verbatim>\<open>errors.Errorf(f, args...)\<close>, a new error with a formatted
    message and no cause;
  \<^item> \<open>Wrapf e f args\<close>: \<^verbatim>\<open>errors.Wrapf(e, f, args...)\<close> for a non-nil \<open>e\<close>, an error
    whose cause is \<open>e\<close>, annotated with the formatted message;
  \<^item> \<open>RequeueAfterError d\<close>: \<^verbatim>\<open>&controllerError.RequeueAfterError{RequeueAfter: d}\<close>.
  A format string is kept with its arguments, unformatted.
\<close>

datatype error =
    Opaque string
  | Errorf string "fmtarg list"
  | Wrapf error string "fmtarg list"
  | RequeueAfterError Duration
and fmtarg =
    ArgString string
  | ArgError error

text \<open>
  The cause an error carries: the error that \<^verbatim>\<open>Wrapf\<close> annotated, which
  \<^verbatim>\<open>errors.Cause\<close> of \<^verbatim>\<open>github.com/pkg/errors\<close> descends into. Only an error made by
  \<^verbatim>\<open>Wrapf\<close> has one.
\<close>

fun cause :: "error \<Rightarrow> error option" where
  "cause (Wrapf e f args) = Some e"
| "cause (Opaque m) = None"
| "cause (Errorf f args) = None"
| "cause (RequeueAfterError d) = None"

text \<open>The type check a caller makes on a requeue signal, and the delay it reads.\<close>

fun is_RequeueAfterError :: "error \<Rightarrow> bool" where
  "is_RequeueAfterError (RequeueAfterError d) = True"
| "is_RequeueAfterError (Opaque m) = False"
| "is_RequeueAfterError (Errorf f args) = False"
| "is_RequeueAfterError (Wrapf e f args) = False"

fun RequeueAfter :: "error \<Rightarrow> Duration option" where
  "RequeueAfter (RequeueAfterError d) = Some d"
| "RequeueAfter (Opaque m) = None"
| "RequeueAfter (Errorf f args) = None"
| "RequeueAfter (Wrapf e f args) = None"

subsection \<open>Data\<close>

text \<open>
  Modelled from the spec: \<^verbatim>\<open>clusterv1.Cluster\<close> is declared outside the file, which reads
  its \<^verbatim>\<open>Name\<close> only. The specification describes it as a spec/status record identified
  by name; the two other fields stand for that content.
\<close>

record Cluster =
  Name :: string
  Spec :: string
  Status :: string

text \<open>
  \<^verbatim>\<open>type Actuator struct { *deployer.Deployer; client client.ClusterV1alpha1Interface }\<close>
\<close>

record Actuator =
  Deployer :: ref
  client :: ref

text \<open>
  \<^verbatim>\<open>actuators.ScopeParams{Cluster: cluster, Client: a.client}\<close>. The field \<^verbatim>\<open>Cluster\<close>
  is the pointer the actuator received; the object behind it is the \<open>cluster\<close> of the
  state below, which every collaborator receives.
\<close>

record ScopeParams =
  Client :: ref

type_synonym Scope = ref

datatype svc = network | resources | certificates

datatype Service = Service svc Scope

text \<open>The service methods the file calls.\<close>

datatype op =
    ReconcileCertificates
  | ReconcileResourceGroup
  | ReconcileNetwork
  | ReconcileLoadBalancer string
  | DeleteResourceGroup

text \<open>
  What a call does that its caller can observe, in order: a log line, the construction of
  a scope with its result, the construction of a service, a service method with the error
  it returned, the release of a scope.
\<close>

datatype event =
    klog_Infof string "fmtarg list"
  | klog_Errorf string "fmtarg list"
  | Call_NewScope ScopeParams "error + Scope"
  | Call_NewService svc Scope
  | Call_op Service op "error option"
  | Call_Close Scope

subsection \<open>State and collaborators\<close>

text \<open>
  A collaborator reaches the cluster object (through the pointer in the scope) and the
  world outside the process (\<open>'w\<close>: the cloud, the API server). It reaches neither the
  actuator nor the record of events.
\<close>

type_synonym 'w ext = "Cluster \<times> 'w"

record 'w state =
  actuator :: Actuator
  cluster :: Cluster
  cloud :: 'w
  trace :: "event list"

record 'w env =
  actuators_NewScope :: "ScopeParams \<Rightarrow> 'w ext \<Rightarrow> (error + Scope) \<times> 'w ext"
  scope_Close :: "Scope \<Rightarrow> 'w ext \<Rightarrow> 'w ext"
  service_op :: "Service \<Rightarrow> op \<Rightarrow> 'w ext \<Rightarrow> error option \<times> 'w ext"

definition emit :: "event \<Rightarrow> 'w state \<Rightarrow> 'w state" where
  "emit ev s = s\<lparr>trace := trace s @ [ev]\<rparr>"

definition ext :: "'w state \<Rightarrow> 'w ext" where
  "ext s = (cluster s, cloud s)"

definition set_ext :: "'w ext \<Rightarrow> 'w state \<Rightarrow> 'w state" where
  "set_ext h s = s\<lparr>cluster := fst h, cloud := snd h\<rparr>"

text \<open>\<^verbatim>\<open>actuators.NewScope(params)\<close>\<close>

definition NewScope :: "'w env \<Rightarrow> ScopeParams \<Rightarrow> 'w state \<Rightarrow> (error + Scope) \<times> 'w state" where
  "NewScope env params s =
     (let (r, h) = actuators_NewScope env params (ext s)
      in (r, emit (Call_NewScope params r) (set_ext h s)))"

text \<open>\<^verbatim>\<open>scope.Close()\<close>\<close>

definition Close :: "'w env \<Rightarrow> Scope \<Rightarrow> 'w state \<Rightarrow> 'w state" where
  "Close env scope s = emit (Call_Close scope) (set_ext (scope_Close env scope (ext s)) s)"

text \<open>
  \<^verbatim>\<open>network.NewService(scope)\<close>, \<^verbatim>\<open>resources.NewService(scope)\<close> and
  \<^verbatim>\<open>certificates.NewService(scope)\<close>: a constructor returns the service built on the scope
  and no error; the call is recorded.
\<close>

definition NewService :: "svc \<Rightarrow> Scope \<Rightarrow> 'w state \<Rightarrow> Service \<times> 'w state" where
  "NewService k scope s = (Service k scope, emit (Call_NewService k scope) s)"

text \<open>A method call on a service: \<^verbatim>\<open>svc.Op(args)\<close>\<close>

definition invoke :: "'w env \<Rightarrow> Service \<Rightarrow> op \<Rightarrow> 'w state \<Rightarrow> error option \<times> 'w state" where
  "invoke env sv f s =
     (let (r, h) = service_op env sv f (ext s)
      in (r, emit (Call_op sv f r) (set_ext h s)))"

subsection \<open>Reconcile\<close>

text \<open>
  The body of \<^verbatim>\<open>Reconcile\<close> after \<^verbatim>\<open>defer scope.Close()\<close>. The cluster's name in a
  message is read when the message is built, after the failing call.
\<close>

definition Reconcile_body :: "'w env \<Rightarrow> Scope \<Rightarrow> 'w state \<Rightarrow> error option \<times> 'w state" where
  "Reconcile_body env scope s0 =
     (let (networkSvc, s1) = NewService network scope s0;
          (resourcesSvc, s2) = NewService resources scope s1;
          (certSvc, s3) = NewService certificates scope s2;
          (err1, s4) = invoke env certSvc ReconcileCertificates s3
      in case err1 of
           Some err \<Rightarrow>
             (Some (Wrapf err ''failed to reconcile certificates for cluster %q''
                      [ArgString (Name (cluster s4))]), s4)
         | None \<Rightarrow>
      (let (err2, s5) = invoke env resourcesSvc ReconcileResourceGroup s4
       in case err2 of
            Some err \<Rightarrow>
              (Some (Wrapf err ''failed to reconcile resource group for cluster %q''
                       [ArgString (Name (cluster s5))]), s5)
          | None \<Rightarrow>
      (let (err3, s6) = invoke env networkSvc ReconcileNetwork s5
       in case err3 of
            Some err \<Rightarrow>
              (Some (Wrapf err ''failed to reconcile network for cluster %q''
                       [ArgString (Name (cluster s6))]), s6)
          | None \<Rightarrow>
      (let (err4, s7) = invoke env networkSvc (ReconcileLoadBalancer ''api'') s6
       in case err4 of
            Some err \<Rightarrow>
              (Some (Wrapf err ''failed to reconcile load balancers for cluster %q''
                       [ArgString (Name (cluster s7))]), s7)
          | None \<Rightarrow> (None, s7)))))"

text \<open>
  \<^verbatim>\<open>func (a *Actuator) Reconcile(cluster *clusterv1.Cluster) error\<close>. The receiver and
  the argument are the \<open>actuator\<close> and the \<open>cluster\<close> of the state. The deferred
  \<^verbatim>\<open>Close\<close> runs once the returned value has been computed.
\<close>

definition Reconcile :: "'w env \<Rightarrow> 'w state \<Rightarrow> error option \<times> 'w state" where
  "Reconcile env s0 =
     (let s1 = emit (klog_Infof ''Reconciling cluster %v'' [ArgString (Name (cluster s0))]) s0;
          (r, s2) = NewScope env \<lparr>Client = client (actuator s1)\<rparr> s1
      in case r of
           Inl err \<Rightarrow> (Some (Errorf ''failed to create scope: %+v'' [ArgError err]), s2)
         | Inr scope \<Rightarrow>
             (let (ret, s3) = Reconcile_body env scope s2
              in (ret, Close env scope s3)))"

subsection \<open>Delete\<close>

text \<open>The body of \<^verbatim>\<open>Delete\<close> after \<^verbatim>\<open>defer scope.Close()\<close>.\<close>

definition Delete_body :: "'w env \<Rightarrow> Scope \<Rightarrow> 'w state \<Rightarrow> error option \<times> 'w state" where
  "Delete_body env scope s0 =
     (let (resourcesSvc, s1) = NewService resources scope s0;
          (err1, s2) = invoke env resourcesSvc DeleteResourceGroup s1
      in case err1 of
           Some err \<Rightarrow>
             (Some (RequeueAfterError (5 * 1000 * 1000 * 1000)),
              emit (klog_Errorf ''Error deleting resource group: %v.'' [ArgError err]) s2)
         | None \<Rightarrow> (None, s2))"

text \<open>\<^verbatim>\<open>func (a *Actuator) Delete(cluster *clusterv1.Cluster) error\<close>\<close>

definition Delete :: "'w env \<Rightarrow> 'w state \<Rightarrow> error option \<times> 'w state" where
  "Delete env s0 =
     (let s1 = emit (klog_Infof ''Reconciling cluster %v'' [ArgString (Name (cluster s0))]) s0;
          (r, s2) = NewScope env \<lparr>Client = client (actuator s1)\<rparr> s1
      in case r of
           Inl err \<Rightarrow> (Some (Errorf ''failed to create scope: %+v'' [ArgError err]), s2)
         | Inr scope \<Rightarrow>
             (let (ret, s3) = Delete_body env scope s2
              in (ret, Close env scope s3)))"

subsection \<open>Reading the record of events\<close>

text \<open>The events a call added: those of the state it returned beyond those it started with.\<close>

definition emitted :: "'w state \<Rightarrow> 'w state \<Rightarrow> event list" where
  "emitted s s' = drop (length (trace s)) (trace s')"

text \<open>The service methods called, in order, each with the service it was called on.\<close>

fun called :: "event \<Rightarrow> (Service \<times> op) option" where
  "called (Call_op sv f r) = Some (sv, f)"
| "called (klog_Infof f args) = None"
| "called (klog_Errorf f args) = None"
| "called (Call_NewScope p r) = None"
| "called (Call_NewService k sc) = None"
| "called (Call_Close sc) = None"

definition calls :: "event list \<Rightarrow> (Service \<times> op) list" where
  "calls tr = List.map_filter called tr"

text \<open>The scopes released, in order.\<close>

fun closed :: "event \<Rightarrow> Scope option" where
  "closed (Call_Close sc) = Some sc"
| "closed (klog_Infof f args) = None"
| "closed (klog_Errorf f args) = None"
| "closed (Call_NewScope p r) = None"
| "closed (Call_NewService k sc) = None"
| "closed (Call_op sv f r) = None"

definition closes :: "event list \<Rightarrow> Scope list" where
  "closes tr = List.map_filter closed tr"

subsection \<open>Concrete collaborators\<close>

text \<open>
  A cluster named \<open>c1\<close> and a world that counts the calls made to it. In \<open>demo_env bad\<close>
  the scope is acquired and every service method succeeds except \<open>bad\<close>, which fails with
  \<open>Opaque ''boom''\<close>; no collaborator touches the cluster. In \<open>demo_env_noscope\<close> the scope
  cannot be constructed.
\<close>

definition demo_state :: "nat state" where
  "demo_state =
     \<lparr>actuator = \<lparr>Deployer = 1, client = 2\<rparr>,
      cluster = \<lparr>Name = ''c1'', Spec = ''spec'', Status = ''status''\<rparr>,
      cloud = 0,
      trace = []\<rparr>"

definition demo_env :: "op option \<Rightarrow> nat env" where
  "demo_env bad =
     \<lparr>actuators_NewScope = (\<lambda>p h. (Inr 7, (fst h, snd h + 1))),
      scope_Close = (\<lambda>sc h. (fst h, snd h + 1)),
      service_op = (\<lambda>sv f h. (if Some f = bad then Some (Opaque ''boom'') else None,
                               (fst h, snd h + 1)))\<rparr>"

definition demo_env_noscope :: "nat env" where
  "demo_env_noscope =
     \<lparr>actuators_NewScope = (\<lambda>p h. (Inl (Opaque ''no credentials''), h)),
      scope_Close = (\<lambda>sc h. h),
      service_op = (\<lambda>sv f h. (None, h))\<rparr>"

section \<open>Properties\<close>

subsection \<open>The record of a call\<close>

lemma state_simps [simp]:
  "ext (emit ev s) = ext s"
  "ext (set_ext h s) = h"
  "trace (emit ev s) = trace s @ [ev]"
  "trace (set_ext h s) = trace s"
  "actuator (emit ev s) = actuator s"
  "actuator (set_ext h s) = actuator s"
  "cluster (emit ev s) = cluster s"
  "cluster (set_ext h s) = fst h"
  by (simp_all add: ext_def emit_def set_ext_def)

lemma emitted_append [simp]: "trace s' = trace s @ evs \<Longrightarrow> emitted s s' = evs"
  by (simp add: emitted_def)

lemma invoke_eq:
  "service_op env sv f (ext s) = (r, h) \<Longrightarrow>
   invoke env sv f s = (r, emit (Call_op sv f r) (set_ext h s))"
  by (simp add: invoke_def)

lemma NewScope_eq:
  "actuators_NewScope env p (ext s) = (r, h) \<Longrightarrow>
   NewScope env p s = (r, emit (Call_NewScope p r) (set_ext h s))"
  by (simp add: NewScope_def)

text \<open>The whole record of a Reconcile that acquired its scope.\<close>

lemma Reconcile_trace:
  assumes "actuators_NewScope env \<lparr>Client = client (actuator s)\<rparr> (ext s) = (Inr sc, h1)"
    and "service_op env (Service certificates sc) ReconcileCertificates h1 = (r1, h2)"
    and "service_op env (Service resources sc) ReconcileResourceGroup h2 = (r2, h3)"
    and "service_op env (Service network sc) ReconcileNetwork h3 = (r3, h4)"
    and "service_op env (Service network sc) (ReconcileLoadBalancer ''api'') h4 = (r4, h5)"
  shows "trace (snd (Reconcile env s)) = trace s @
     [klog_Infof ''Reconciling cluster %v'' [ArgString (Name (cluster s))],
      Call_NewScope \<lparr>Client = client (actuator s)\<rparr> (Inr sc),
      Call_NewService network sc, Call_NewService resources sc, Call_NewService certificates sc,
      Call_op (Service certificates sc) ReconcileCertificates r1] @
     (if r1 \<noteq> None then [] else
        Call_op (Service resources sc) ReconcileResourceGroup r2 #
     (if r2 \<noteq> None then [] else
        Call_op (Service network sc) ReconcileNetwork r3 #
     (if r3 \<noteq> None then [] else
        [Call_op (Service network sc) (ReconcileLoadBalancer ''api'') r4]))) @
     [Call_Close sc]"
  using assms
  by (cases r1; cases r2; cases r3; cases r4;
      simp add: Reconcile_def Reconcile_body_def NewScope_eq invoke_eq NewService_def Close_def)

lemma Reconcile_result:
  assumes "actuators_NewScope env \<lparr>Client = client (actuator s)\<rparr> (ext s) = (Inr sc, h1)"
    and "service_op env (Service certificates sc) ReconcileCertificates h1 = (r1, h2)"
    and "service_op env (Service resources sc) ReconcileResourceGroup h2 = (r2, h3)"
    and "service_op env (Service network sc) ReconcileNetwork h3 = (r3, h4)"
    and "service_op env (Service network sc) (ReconcileLoadBalancer ''api'') h4 = (r4, h5)"
  shows "fst (Reconcile env s) =
    (case r1 of
       Some e \<Rightarrow> Some (Wrapf e ''failed to reconcile certificates for cluster %q''
                         [ArgString (Name (fst h2))])
     | None \<Rightarrow>
    (case r2 of
       Some e \<Rightarrow> Some (Wrapf e ''failed to reconcile resource group for cluster %q''
                         [ArgString (Name (fst h3))])
     | None \<Rightarrow>
    (case r3 of
       Some e \<Rightarrow> Some (Wrapf e ''failed to reconcile network for cluster %q''
                         [ArgString (Name (fst h4))])
     | None \<Rightarrow>
    (case r4 of
       Some e \<Rightarrow> Some (Wrapf e ''failed to reconcile load balancers for cluster %q''
                         [ArgString (Name (fst h5))])
     | None \<Rightarrow> None))))"
  using assms
  by (cases r1; cases r2; cases r3; cases r4;
      simp add: Reconcile_def Reconcile_body_def NewScope_eq invoke_eq NewService_def Close_def)

lemma Reconcile_noscope:
  assumes "actuators_NewScope env \<lparr>Client = client (actuator s)\<rparr> (ext s) = (Inl e, h1)"
  shows "fst (Reconcile env s) = Some (Errorf ''failed to create scope: %+v'' [ArgError e])"
    and "trace (snd (Reconcile env s)) = trace s @
     [klog_Infof ''Reconciling cluster %v'' [ArgString (Name (cluster s))],
      Call_NewScope \<lparr>Client = client (actuator s)\<rparr> (Inl e)]"
  using assms by (simp_all add: Reconcile_def NewScope_eq)

lemma Delete_trace:
  assumes "actuators_NewScope env \<lparr>Client = client (actuator s)\<rparr> (ext s) = (Inr sc, h1)"
    and "service_op env (Service resources sc) DeleteResourceGroup h1 = (r1, h2)"
  shows "trace (snd (Delete env s)) = trace s @
     [klog_Infof ''Reconciling cluster %v'' [ArgString (Name (cluster s))],
      Call_NewScope \<lparr>Client = client (actuator s)\<rparr> (Inr sc),
      Call_NewService resources sc,
      Call_op (Service resources sc) DeleteResourceGroup r1] @
     (case r1 of
        Some e \<Rightarrow> [klog_Errorf ''Error deleting resource group: %v.'' [ArgError e]]
      | None \<Rightarrow> []) @
     [Call_Close sc]"
  using assms
  by (cases r1; simp add: Delete_def Delete_body_def NewScope_eq invoke_eq NewService_def Close_def)

lemma Delete_result:
  assumes "actuators_NewScope env \<lparr>Client = client (actuator s)\<rparr> (ext s) = (Inr sc, h1)"
    and "service_op env (Service resources sc) DeleteResourceGroup h1 = (r1, h2)"
  shows "fst (Delete env s) =
     (case r1 of Some e \<Rightarrow> Some (RequeueAfterError (5 * 1000 * 1000 * 1000)) | None \<Rightarrow> None)"
  using assms
  by (cases r1; simp add: Delete_def Delete_body_def NewScope_eq invoke_eq NewService_def Close_def)

lemma Delete_noscope:
  assumes "actuators_NewScope env \<lparr>Client = client (actuator s)\<rparr> (ext s) = (Inl e, h1)"
  shows "fst (Delete env s) = Some (Errorf ''failed to create scope: %+v'' [ArgError e])"
    and "trace (snd (Delete env s)) = trace s @
     [klog_Infof ''Reconciling cluster %v'' [ArgString (Name (cluster s))],
      Call_NewScope \<lparr>Client = client (actuator s)\<rparr> (Inl e)]"
  using assms by (simp_all add: Delete_def NewScope_eq)

text \<open>What the collaborators can reach, after a call; the actuator, after a call.\<close>

lemma Reconcile_ext:
  assumes "actuators_NewScope env \<lparr>Client = client (actuator s)\<rparr> (ext s) = (Inr sc, h1)"
    and "service_op env (Service certificates sc) ReconcileCertificates h1 = (r1, h2)"
    and "service_op env (Service resources sc) ReconcileResourceGroup h2 = (r2, h3)"
    and "service_op env (Service network sc) ReconcileNetwork h3 = (r3, h4)"
    and "service_op env (Service network sc) (ReconcileLoadBalancer ''api'') h4 = (r4, h5)"
  shows "ext (snd (Reconcile env s)) = scope_Close env sc
     (if r1 \<noteq> None then h2 else if r2 \<noteq> None then h3 else if r3 \<noteq> None then h4 else h5)"
  using assms
  by (cases r1; cases r2; cases r3; cases r4;
      simp add: Reconcile_def Reconcile_body_def NewScope_eq invoke_eq NewService_def Close_def)

lemma Delete_ext:
  assumes "actuators_NewScope env \<lparr>Client = client (actuator s)\<rparr> (ext s) = (Inr sc, h1)"
    and "service_op env (Service resources sc) DeleteResourceGroup h1 = (r1, h2)"
  shows "ext (snd (Delete env s)) = scope_Close env sc h2"
  using assms
  by (cases r1; simp add: Delete_def Delete_body_def NewScope_eq invoke_eq NewService_def Close_def)

lemma noscope_ext:
  assumes "actuators_NewScope env \<lparr>Client = client (actuator s)\<rparr> (ext s) = (Inl e, h1)"
  shows "ext (snd (Reconcile env s)) = h1" and "ext (snd (Delete env s)) = h1"
  using assms by (simp_all add: Reconcile_def Delete_def NewScope_eq)

lemma actuator_invoke [simp]: "actuator (snd (invoke env sv f s)) = actuator s"
  by (simp add: invoke_def split: prod.splits)

lemma actuator_NewScope [simp]: "actuator (snd (NewScope env p s)) = actuator s"
  by (simp add: NewScope_def split: prod.splits)

lemma actuator_Close [simp]: "actuator (Close env sc s) = actuator s"
  by (simp add: Close_def)

lemma actuator_Reconcile_body: "actuator (snd (Reconcile_body env sc s)) = actuator s"
proof -
  have inv: "\<And>sv f t t' r. invoke env sv f t = (r, t') \<Longrightarrow> actuator t' = actuator t"
    by (metis actuator_invoke snd_conv)
  show ?thesis
    by (auto simp: Reconcile_body_def NewService_def split: prod.splits option.splits dest!: inv)
qed

lemma actuator_Delete_body: "actuator (snd (Delete_body env sc s)) = actuator s"
proof -
  have inv: "\<And>sv f t t' r. invoke env sv f t = (r, t') \<Longrightarrow> actuator t' = actuator t"
    by (metis actuator_invoke snd_conv)
  show ?thesis
    by (auto simp: Delete_body_def NewService_def split: prod.splits option.splits dest!: inv)
qed

lemma actuator_Reconcile: "actuator (snd (Reconcile env s)) = actuator s"
proof -
  have ns: "\<And>p t t' r. NewScope env p t = (r, t') \<Longrightarrow> actuator t' = actuator t"
    by (metis actuator_NewScope snd_conv)
  have rb: "\<And>sc t t' r. Reconcile_body env sc t = (r, t') \<Longrightarrow> actuator t' = actuator t"
    by (metis actuator_Reconcile_body snd_conv)
  show ?thesis
    by (auto simp: Reconcile_def Let_def split: prod.splits sum.splits dest!: ns rb)
qed

lemma actuator_Delete: "actuator (snd (Delete env s)) = actuator s"
proof -
  have ns: "\<And>p t t' r. NewScope env p t = (r, t') \<Longrightarrow> actuator t' = actuator t"
    by (metis actuator_NewScope snd_conv)
  have rb: "\<And>sc t t' r. Delete_body env sc t = (r, t') \<Longrightarrow> actuator t' = actuator t"
    by (metis actuator_Delete_body snd_conv)
  show ?thesis
    by (auto simp: Delete_def Let_def split: prod.splits sum.splits dest!: ns rb)
qed

subsection \<open>Facts about the concrete collaborators and the readers\<close>

lemma demo_NewScope:
  "actuators_NewScope (demo_env bad) p h = (Inr 7, (fst h, snd h + 1))"
  by (simp add: demo_env_def)

lemma demo_op:
  "service_op (demo_env bad) sv f h =
     (if Some f = bad then Some (Opaque ''boom'') else None, (fst h, snd h + 1))"
  by (simp add: demo_env_def)

lemma demo_noscope:
  "actuators_NewScope demo_env_noscope p h = (Inl (Opaque ''no credentials''), h)"
  by (simp add: demo_env_noscope_def)

lemma calls_simps [simp]:
  "calls [] = []"
  "calls (ev # evs) = (case called ev of None \<Rightarrow> calls evs | Some c \<Rightarrow> c # calls evs)"
  by (simp_all add: calls_def map_filter_simps split: option.splits)

lemma closes_simps [simp]:
  "closes [] = []"
  "closes (ev # evs) = (case closed ev of None \<Rightarrow> closes evs | Some c \<Rightarrow> c # closes evs)"
  by (simp_all add: closes_def map_filter_simps split: option.splits)

subsection \<open>Reconcile: the order of the steps\<close>

text \<open>
  C1. When the scope is acquired, \<open>Reconcile\<close> calls certificate, resource-group, network
  and load-balancer reconciliation in this order, the last with \<open>''api''\<close>. It stops at the
  first step that fails and returns that step's error wrapped by \<^verbatim>\<open>Wrapf\<close> with the
  message of the step and the cluster's name; no later step is called. When none fails, all
  four are called. (\<open>r1\<close> to \<open>r4\<close> are what the steps return in the states
  \<open>h1\<close> to \<open>h4\<close> in which they would run.)
\<close>

theorem Reconcile_steps_in_order:
  assumes "actuators_NewScope env \<lparr>Client = client (actuator s)\<rparr> (ext s) = (Inr sc, h1)"
    and "service_op env (Service certificates sc) ReconcileCertificates h1 = (r1, h2)"
    and "service_op env (Service resources sc) ReconcileResourceGroup h2 = (r2, h3)"
    and "service_op env (Service network sc) ReconcileNetwork h3 = (r3, h4)"
    and "service_op env (Service network sc) (ReconcileLoadBalancer ''api'') h4 = (r4, h5)"
  shows "(fst (Reconcile env s), calls (emitted s (snd (Reconcile env s)))) =
    (case r1 of
       Some e \<Rightarrow>
         (Some (Wrapf e ''failed to reconcile certificates for cluster %q''
                  [ArgString (Name (fst h2))]),
          [(Service certificates sc, ReconcileCertificates)])
     | None \<Rightarrow>
    (case r2 of
       Some e \<Rightarrow>
         (Some (Wrapf e ''failed to reconcile resource group for cluster %q''
                  [ArgString (Name (fst h3))]),
          [(Service certificates sc, ReconcileCertificates),
           (Service resources sc, ReconcileResourceGroup)])
     | None \<Rightarrow>
    (case r3 of
       Some e \<Rightarrow>
         (Some (Wrapf e ''failed to reconcile network for cluster %q''
                  [ArgString (Name (fst h4))]),
          [(Service certificates sc, ReconcileCertificates),
           (Service resources sc, ReconcileResourceGroup),
           (Service network sc, ReconcileNetwork)])
     | None \<Rightarrow>
    (case r4 of
       Some e \<Rightarrow>
         (Some (Wrapf e ''failed to reconcile load balancers for cluster %q''
                  [ArgString (Name (fst h5))]),
          [(Service certificates sc, ReconcileCertificates),
           (Service resources sc, ReconcileResourceGroup),
           (Service network sc, ReconcileNetwork),
           (Service network sc, ReconcileLoadBalancer ''api'')])
     | None \<Rightarrow>
         (None,
          [(Service certificates sc, ReconcileCertificates),
           (Service resources sc, ReconcileResourceGroup),
           (Service network sc, ReconcileNetwork),
           (Service network sc, ReconcileLoadBalancer ''api'')])))))"
proof -
  note tr = Reconcile_trace [OF assms] and res = Reconcile_result [OF assms]
  show ?thesis
    by (cases r1; cases r2; cases r3; cases r4; simp add: tr res)
qed

theorem Reconcile_steps_in_order_witness:
  "actuators_NewScope (demo_env (Some ReconcileCertificates))
     \<lparr>Client = client (actuator demo_state)\<rparr> (ext demo_state)
     = (Inr 7, (cluster demo_state, 1)) \<and>
   service_op (demo_env (Some ReconcileCertificates)) (Service certificates 7)
     ReconcileCertificates (cluster demo_state, 1)
     = (Some (Opaque ''boom''), (cluster demo_state, 2)) \<and>
   fst (Reconcile (demo_env (Some ReconcileCertificates)) demo_state)
     = Some (Wrapf (Opaque ''boom'') ''failed to reconcile certificates for cluster %q''
               [ArgString ''c1'']) \<and>
   calls (emitted demo_state (snd (Reconcile (demo_env (Some ReconcileCertificates)) demo_state)))
     = [(Service certificates 7, ReconcileCertificates)] \<and>
   fst (Reconcile (demo_env (Some ReconcileNetwork)) demo_state)
     = Some (Wrapf (Opaque ''boom'') ''failed to reconcile network for cluster %q''
               [ArgString ''c1'']) \<and>
   calls (emitted demo_state (snd (Reconcile (demo_env (Some ReconcileNetwork)) demo_state)))
     = [(Service certificates 7, ReconcileCertificates),
        (Service resources 7, ReconcileResourceGroup),
        (Service network 7, ReconcileNetwork)]"
  using
    Reconcile_steps_in_order [OF demo_NewScope demo_op demo_op demo_op demo_op,
      of "Some ReconcileCertificates" demo_state]
    Reconcile_steps_in_order [OF demo_NewScope demo_op demo_op demo_op demo_op,
      of "Some ReconcileNetwork" demo_state]
  by (simp add: demo_NewScope demo_op demo_state_def ext_def)

subsection \<open>Delete: the requeue signal\<close>

text \<open>
  C2. When the scope is acquired and resource-group deletion fails, \<open>Delete\<close> returns a
  \<open>RequeueAfterError\<close> carrying the delay written in the source, an error a caller tells
  apart by its type (\<open>is_RequeueAfterError\<close>); when the deletion succeeds, \<open>Delete\<close>
  returns \<^verbatim>\<open>nil\<close>.
\<close>

theorem Delete_requeues_on_failure:
  assumes "actuators_NewScope env \<lparr>Client = client (actuator s)\<rparr> (ext s) = (Inr sc, h1)"
    and "service_op env (Service resources sc) DeleteResourceGroup h1 = (r, h2)"
  shows "fst (Delete env s) =
     (case r of
        Some e \<Rightarrow> Some (RequeueAfterError (5 * 1000 * 1000 * 1000))
      | None \<Rightarrow> None)
   \<and> map_option is_RequeueAfterError (fst (Delete env s)) = map_option (\<lambda>e. True) r"
  using Delete_result [OF assms] by (cases r) simp_all

theorem Delete_requeues_on_failure_witness:
  "actuators_NewScope (demo_env (Some DeleteResourceGroup))
     \<lparr>Client = client (actuator demo_state)\<rparr> (ext demo_state)
     = (Inr 7, (cluster demo_state, 1)) \<and>
   service_op (demo_env (Some DeleteResourceGroup)) (Service resources 7)
     DeleteResourceGroup (cluster demo_state, 1)
     = (Some (Opaque ''boom''), (cluster demo_state, 2)) \<and>
   fst (Delete (demo_env (Some DeleteResourceGroup)) demo_state)
     = Some (RequeueAfterError (5 * 1000 * 1000 * 1000)) \<and>
   map_option is_RequeueAfterError (fst (Delete (demo_env (Some DeleteResourceGroup)) demo_state))
     = Some True \<and>
   service_op (demo_env None) (Service resources 7)
     DeleteResourceGroup (cluster demo_state, 1)
     = (None, (cluster demo_state, 2)) \<and>
   fst (Delete (demo_env None) demo_state) = None"
  using
    Delete_requeues_on_failure [OF demo_NewScope demo_op,
      of "Some DeleteResourceGroup" demo_state]
    Delete_requeues_on_failure [OF demo_NewScope demo_op, of None demo_state]
  by (simp add: demo_NewScope demo_op demo_state_def ext_def)

subsection \<open>Scope construction fails\<close>



subsection \<open>The release of the scope\<close>

text \<open>
  C4. When the scope is acquired, \<open>Reconcile\<close> and \<open>Delete\<close> release it exactly once,
  whatever the steps return, and the release is the last thing the call does.
\<close>

theorem scope_closed_exactly_once:
  assumes "actuators_NewScope env \<lparr>Client = client (actuator s)\<rparr> (ext s) = (Inr sc, h1)"
  shows "closes (emitted s (snd (Reconcile env s))) = [sc]
    \<and> last (emitted s (snd (Reconcile env s))) = Call_Close sc
    \<and> closes (emitted s (snd (Delete env s))) = [sc]
    \<and> last (emitted s (snd (Delete env s))) = Call_Close sc"
proof -
  obtain r1 h2 where 1: "service_op env (Service certificates sc) ReconcileCertificates h1 = (r1, h2)"
    by (cases "service_op env (Service certificates sc) ReconcileCertificates h1")
  obtain r2 h3 where 2: "service_op env (Service resources sc) ReconcileResourceGroup h2 = (r2, h3)"
    by (cases "service_op env (Service resources sc) ReconcileResourceGroup h2")
  obtain r3 h4 where 3: "service_op env (Service network sc) ReconcileNetwork h3 = (r3, h4)"
    by (cases "service_op env (Service network sc) ReconcileNetwork h3")
  obtain r4 h5 where 4: "service_op env (Service network sc) (ReconcileLoadBalancer ''api'') h4 = (r4, h5)"
    by (cases "service_op env (Service network sc) (ReconcileLoadBalancer ''api'') h4")
  obtain d h6 where 5: "service_op env (Service resources sc) DeleteResourceGroup h1 = (d, h6)"
    by (cases "service_op env (Service resources sc) DeleteResourceGroup h1")
  note rt = Reconcile_trace [OF assms 1 2 3 4] and dt = Delete_trace [OF assms 5]
  have "closes (emitted s (snd (Reconcile env s))) = [sc]"
    by (cases r1; cases r2; cases r3; cases r4; simp add: rt)
  moreover have "last (emitted s (snd (Reconcile env s))) = Call_Close sc"
    by (cases r1; cases r2; cases r3; cases r4; simp add: rt)
  moreover have "closes (emitted s (snd (Delete env s))) = [sc]"
    by (cases d; simp add: dt)
  moreover have "last (emitted s (snd (Delete env s))) = Call_Close sc"
    by (cases d; simp add: dt)
  ultimately show ?thesis by simp
qed

theorem scope_closed_exactly_once_witness:
  "actuators_NewScope (demo_env (Some ReconcileResourceGroup))
     \<lparr>Client = client (actuator demo_state)\<rparr> (ext demo_state)
     = (Inr 7, (cluster demo_state, 1)) \<and>
   closes (emitted demo_state (snd (Reconcile (demo_env (Some ReconcileResourceGroup)) demo_state)))
     = [7] \<and>
   last (emitted demo_state (snd (Reconcile (demo_env (Some ReconcileResourceGroup)) demo_state)))
     = Call_Close 7 \<and>
   closes (emitted demo_state (snd (Delete (demo_env (Some ReconcileResourceGroup)) demo_state)))
     = [7] \<and>
   last (emitted demo_state (snd (Delete (demo_env (Some ReconcileResourceGroup)) demo_state)))
     = Call_Close 7"
  using scope_closed_exactly_once
      [where s = demo_state, OF demo_NewScope [where bad = "Some ReconcileResourceGroup"]]
  by (simp add: demo_NewScope demo_state_def ext_def)

subsection \<open>What becomes of a collaborator's error\<close>

text \<open>
  C5, as stated, fails on \<open>Delete\<close>: resource-group deletion fails with
  \<open>Opaque ''boom''\<close>, and the error \<open>Delete\<close> returns is the requeue signal, which
  carries no cause.
\<close>

theorem Delete_swallows_error_counterexample:
  "Call_op (Service resources 7) DeleteResourceGroup (Some (Opaque ''boom''))
     \<in> set (emitted demo_state (snd (Delete (demo_env (Some DeleteResourceGroup)) demo_state))) \<and>
   fst (Delete (demo_env (Some DeleteResourceGroup)) demo_state)
     = Some (RequeueAfterError 5000000000) \<and>
   Option.bind (fst (Delete (demo_env (Some DeleteResourceGroup)) demo_state)) cause
     \<noteq> Some (Opaque ''boom'')"
  using
    Delete_trace [OF demo_NewScope demo_op, of "Some DeleteResourceGroup" demo_state]
    Delete_result [OF demo_NewScope demo_op, of "Some DeleteResourceGroup" demo_state]
  by simp

text \<open>
  C5, amended. An error that a service method returns during \<open>Reconcile\<close> is the cause
  of the error \<open>Reconcile\<close> returns. An error that a service method returns during
  \<open>Delete\<close> is written to the log, and \<open>Delete\<close> returns the requeue signal, which
  carries the delay and no cause.
\<close>

theorem Reconcile_wraps_Delete_requeues:
  "(Call_op sv f (Some e) \<in> set (emitted s (snd (Reconcile env s))) \<longrightarrow>
      Option.bind (fst (Reconcile env s)) cause = Some e) \<and>
   (Call_op sv f (Some e) \<in> set (emitted s (snd (Delete env s))) \<longrightarrow>
      klog_Errorf ''Error deleting resource group: %v.'' [ArgError e]
        \<in> set (emitted s (snd (Delete env s))) \<and>
      fst (Delete env s) = Some (RequeueAfterError (5 * 1000 * 1000 * 1000)) \<and>
      Option.bind (fst (Delete env s)) cause = None)"
proof -
  obtain r h1 where b0: "actuators_NewScope env \<lparr>Client = client (actuator s)\<rparr> (ext s) = (r, h1)"
    by (cases "actuators_NewScope env \<lparr>Client = client (actuator s)\<rparr> (ext s)")
  show ?thesis
  proof (cases r)
    case (Inl x)
    with b0 have "actuators_NewScope env \<lparr>Client = client (actuator s)\<rparr> (ext s) = (Inl x, h1)"
      by simp
    then show ?thesis
      by (simp add: Reconcile_noscope Delete_noscope)
  next
    case (Inr sc)
    with b0 have ok: "actuators_NewScope env \<lparr>Client = client (actuator s)\<rparr> (ext s) = (Inr sc, h1)"
      by simp
    obtain r1 h2 where b1: "service_op env (Service certificates sc) ReconcileCertificates h1 = (r1, h2)"
      by (cases "service_op env (Service certificates sc) ReconcileCertificates h1")
    obtain r2 h3 where b2: "service_op env (Service resources sc) ReconcileResourceGroup h2 = (r2, h3)"
      by (cases "service_op env (Service resources sc) ReconcileResourceGroup h2")
    obtain r3 h4 where b3: "service_op env (Service network sc) ReconcileNetwork h3 = (r3, h4)"
      by (cases "service_op env (Service network sc) ReconcileNetwork h3")
    obtain r4 h5 where b4: "service_op env (Service network sc) (ReconcileLoadBalancer ''api'') h4 = (r4, h5)"
      by (cases "service_op env (Service network sc) (ReconcileLoadBalancer ''api'') h4")
    obtain d h6 where b5: "service_op env (Service resources sc) DeleteResourceGroup h1 = (d, h6)"
      by (cases "service_op env (Service resources sc) DeleteResourceGroup h1")
    note rt = Reconcile_trace [OF ok b1 b2 b3 b4] and rr = Reconcile_result [OF ok b1 b2 b3 b4]
      and dt = Delete_trace [OF ok b5] and dr = Delete_result [OF ok b5]
    have "Call_op sv f (Some e) \<in> set (emitted s (snd (Reconcile env s))) \<longrightarrow>
      Option.bind (fst (Reconcile env s)) cause = Some e"
      by (cases r1; cases r2; cases r3; cases r4; auto simp add: rt rr)
    moreover have "Call_op sv f (Some e) \<in> set (emitted s (snd (Delete env s))) \<longrightarrow>
      klog_Errorf ''Error deleting resource group: %v.'' [ArgError e]
        \<in> set (emitted s (snd (Delete env s))) \<and>
      fst (Delete env s) = Some (RequeueAfterError (5 * 1000 * 1000 * 1000)) \<and>
      Option.bind (fst (Delete env s)) cause = None"
      by (cases d; auto simp add: dt dr)
    ultimately show ?thesis by blast
  qed
qed

theorem Reconcile_wraps_Delete_requeues_witness:
  "Call_op (Service network 7) ReconcileNetwork (Some (Opaque ''boom''))
     \<in> set (emitted demo_state (snd (Reconcile (demo_env (Some ReconcileNetwork)) demo_state))) \<and>
   Option.bind (fst (Reconcile (demo_env (Some ReconcileNetwork)) demo_state)) cause
     = Some (Opaque ''boom'') \<and>
   Call_op (Service resources 7) DeleteResourceGroup (Some (Opaque ''boom''))
     \<in> set (emitted demo_state (snd (Delete (demo_env (Some DeleteResourceGroup)) demo_state))) \<and>
   klog_Errorf ''Error deleting resource group: %v.'' [ArgError (Opaque ''boom'')]
     \<in> set (emitted demo_state (snd (Delete (demo_env (Some DeleteResourceGroup)) demo_state))) \<and>
   fst (Delete (demo_env (Some DeleteResourceGroup)) demo_state)
     = Some (RequeueAfterError 5000000000) \<and>
   Option.bind (fst (Delete (demo_env (Some DeleteResourceGroup)) demo_state)) cause = None"
proof -
  have 1: "Call_op (Service network 7) ReconcileNetwork (Some (Opaque ''boom''))
     \<in> set (emitted demo_state (snd (Reconcile (demo_env (Some ReconcileNetwork)) demo_state)))"
    using Reconcile_trace [OF demo_NewScope demo_op demo_op demo_op demo_op,
        of "Some ReconcileNetwork" demo_state]
    by simp
  have 2: "Call_op (Service resources 7) DeleteResourceGroup (Some (Opaque ''boom''))
     \<in> set (emitted demo_state (snd (Delete (demo_env (Some DeleteResourceGroup)) demo_state)))"
    using Delete_trace [OF demo_NewScope demo_op, of "Some DeleteResourceGroup" demo_state]
    by simp
  show ?thesis
    using 1 2
      Reconcile_wraps_Delete_requeues [of "Service network 7" ReconcileNetwork "Opaque ''boom''"
        demo_state "demo_env (Some ReconcileNetwork)"]
      Reconcile_wraps_Delete_requeues [of "Service resources 7" DeleteResourceGroup "Opaque ''boom''"
        demo_state "demo_env (Some DeleteResourceGroup)"]
    by simp
qed

subsection \<open>Reconcile: success\<close>

text \<open>
  C6. When the scope is acquired and the four steps return \<^verbatim>\<open>nil\<close>, \<open>Reconcile\<close>
  returns \<^verbatim>\<open>nil\<close>.
\<close>

theorem Reconcile_returns_nil:
  assumes "actuators_NewScope env \<lparr>Client = client (actuator s)\<rparr> (ext s) = (Inr sc, h1)"
    and "service_op env (Service certificates sc) ReconcileCertificates h1 = (None, h2)"
    and "service_op env (Service resources sc) ReconcileResourceGroup h2 = (None, h3)"
    and "service_op env (Service network sc) ReconcileNetwork h3 = (None, h4)"
    and "service_op env (Service network sc) (ReconcileLoadBalancer ''api'') h4 = (None, h5)"
  shows "fst (Reconcile env s) = None"
  using Reconcile_result [OF assms] by simp

theorem Reconcile_returns_nil_witness:
  "actuators_NewScope (demo_env None) \<lparr>Client = client (actuator demo_state)\<rparr> (ext demo_state)
     = (Inr 7, (cluster demo_state, 1)) \<and>
   service_op (demo_env None) (Service certificates 7) ReconcileCertificates (cluster demo_state, 1)
     = (None, (cluster demo_state, 2)) \<and>
   service_op (demo_env None) (Service resources 7) ReconcileResourceGroup (cluster demo_state, 2)
     = (None, (cluster demo_state, 3)) \<and>
   service_op (demo_env None) (Service network 7) ReconcileNetwork (cluster demo_state, 3)
     = (None, (cluster demo_state, 4)) \<and>
   service_op (demo_env None) (Service network 7) (ReconcileLoadBalancer ''api'') (cluster demo_state, 4)
     = (None, (cluster demo_state, 5)) \<and>
   fst (Reconcile (demo_env None) demo_state) = None"
proof -
  have b0: "actuators_NewScope (demo_env None) \<lparr>Client = client (actuator demo_state)\<rparr> (ext demo_state)
     = (Inr 7, (cluster demo_state, 1))"
    by (simp add: demo_NewScope demo_state_def ext_def)
  have b1: "service_op (demo_env None) (Service certificates 7) ReconcileCertificates (cluster demo_state, 1)
     = (None, (cluster demo_state, 2))"
    by (simp add: demo_op)
  have b2: "service_op (demo_env None) (Service resources 7) ReconcileResourceGroup (cluster demo_state, 2)
     = (None, (cluster demo_state, 3))"
    by (simp add: demo_op)
  have b3: "service_op (demo_env None) (Service network 7) ReconcileNetwork (cluster demo_state, 3)
     = (None, (cluster demo_state, 4))"
    by (simp add: demo_op)
  have b4: "service_op (demo_env None) (Service network 7) (ReconcileLoadBalancer ''api'') (cluster demo_state, 4)
     = (None, (cluster demo_state, 5))"
    by (simp add: demo_op)
  show ?thesis
    using b0 b1 b2 b3 b4 Reconcile_returns_nil [OF b0 b1 b2 b3 b4] by simp
qed

subsection \<open>Delete: the only service method\<close>

text \<open>
  C7. The service methods \<open>Delete\<close> calls are resource-group deletion, once, when the
  scope is acquired, and none otherwise: no other deletion is ever called.
\<close>

theorem Delete_calls_only_DeleteResourceGroup:
  assumes "actuators_NewScope env \<lparr>Client = client (actuator s)\<rparr> (ext s) = (r, h1)"
  shows "calls (emitted s (snd (Delete env s))) =
     (case r of Inl e \<Rightarrow> [] | Inr sc \<Rightarrow> [(Service resources sc, DeleteResourceGroup)])"
proof (cases r)
  case (Inl e)
  with assms show ?thesis by (simp add: Delete_noscope)
next
  case (Inr sc)
  obtain d h2 where b1: "service_op env (Service resources sc) DeleteResourceGroup h1 = (d, h2)"
    by (cases "service_op env (Service resources sc) DeleteResourceGroup h1")
  from assms Inr have ok: "actuators_NewScope env \<lparr>Client = client (actuator s)\<rparr> (ext s) = (Inr sc, h1)"
    by simp
  show ?thesis
    by (cases d; simp add: Delete_trace [OF ok b1] Inr)
qed

theorem Delete_calls_only_DeleteResourceGroup_witness:
  "actuators_NewScope (demo_env (Some DeleteResourceGroup))
     \<lparr>Client = client (actuator demo_state)\<rparr> (ext demo_state)
     = (Inr 7, (cluster demo_state, 1)) \<and>
   calls (emitted demo_state (snd (Delete (demo_env (Some DeleteResourceGroup)) demo_state)))
     = [(Service resources 7, DeleteResourceGroup)] \<and>
   calls (emitted demo_state (snd (Delete (demo_env None) demo_state)))
     = [(Service resources 7, DeleteResourceGroup)] \<and>
   calls (emitted demo_state (snd (Delete demo_env_noscope demo_state))) = []"
  using
    Delete_calls_only_DeleteResourceGroup
      [where s = demo_state, OF demo_NewScope [where bad = "Some DeleteResourceGroup"]]
    Delete_calls_only_DeleteResourceGroup
      [where s = demo_state, OF demo_NewScope [where bad = None]]
    Delete_calls_only_DeleteResourceGroup [where s = demo_state, OF demo_noscope]
  by (simp add: demo_NewScope demo_state_def ext_def)

subsection \<open>Frame\<close>

text \<open>
  C8. \<open>Reconcile\<close> and \<open>Delete\<close> leave the actuator as it was, and they write
  nothing of their own to the cluster: whatever property \<open>P\<close> of the cluster and the
  world every collaborator preserves still holds when they return. With \<open>P\<close> the
  property of holding a given cluster record, the record is unchanged unless a collaborator
  changes it.
\<close>

theorem actuator_and_cluster_untouched:
  assumes pres_scope: "\<And>p h. P h \<Longrightarrow> P (snd (actuators_NewScope env p h))"
    and pres_close: "\<And>sc h. P h \<Longrightarrow> P (scope_Close env sc h)"
    and pres_op: "\<And>sv f h. P h \<Longrightarrow> P (snd (service_op env sv f h))"
    and init: "P (ext s)"
  shows "actuator (snd (Reconcile env s)) = actuator s
    \<and> actuator (snd (Delete env s)) = actuator s
    \<and> P (ext (snd (Reconcile env s)))
    \<and> P (ext (snd (Delete env s)))"
proof -
  obtain r h1 where 0: "actuators_NewScope env \<lparr>Client = client (actuator s)\<rparr> (ext s) = (r, h1)"
    by (cases "actuators_NewScope env \<lparr>Client = client (actuator s)\<rparr> (ext s)")
  have P1: "P h1" using pres_scope [OF init, of "\<lparr>Client = client (actuator s)\<rparr>"] by (simp add: 0)
  have "P (ext (snd (Reconcile env s))) \<and> P (ext (snd (Delete env s)))"
  proof (cases r)
    case (Inl e)
    with 0 P1 show ?thesis by (simp add: noscope_ext)
  next
    case (Inr sc)
    obtain r1 h2 where 1: "service_op env (Service certificates sc) ReconcileCertificates h1 = (r1, h2)"
      by (cases "service_op env (Service certificates sc) ReconcileCertificates h1")
    obtain r2 h3 where 2: "service_op env (Service resources sc) ReconcileResourceGroup h2 = (r2, h3)"
      by (cases "service_op env (Service resources sc) ReconcileResourceGroup h2")
    obtain r3 h4 where 3: "service_op env (Service network sc) ReconcileNetwork h3 = (r3, h4)"
      by (cases "service_op env (Service network sc) ReconcileNetwork h3")
    obtain r4 h5 where 4: "service_op env (Service network sc) (ReconcileLoadBalancer ''api'') h4 = (r4, h5)"
      by (cases "service_op env (Service network sc) (ReconcileLoadBalancer ''api'') h4")
    obtain d h6 where 5: "service_op env (Service resources sc) DeleteResourceGroup h1 = (d, h6)"
      by (cases "service_op env (Service resources sc) DeleteResourceGroup h1")
    have P2: "P h2" using pres_op [OF P1, of "Service certificates sc" ReconcileCertificates] by (simp add: 1)
    have P3: "P h3" using pres_op [OF P2, of "Service resources sc" ReconcileResourceGroup] by (simp add: 2)
    have P4: "P h4" using pres_op [OF P3, of "Service network sc" ReconcileNetwork] by (simp add: 3)
    have P5: "P h5" using pres_op [OF P4, of "Service network sc" "ReconcileLoadBalancer ''api''"] by (simp add: 4)
    have P6: "P h6" using pres_op [OF P1, of "Service resources sc" DeleteResourceGroup] by (simp add: 5)
    from 0 Inr have ok: "actuators_NewScope env \<lparr>Client = client (actuator s)\<rparr> (ext s) = (Inr sc, h1)"
      by simp
    show ?thesis
      using P2 P3 P4 P5 P6
      by (simp add: Reconcile_ext [OF ok 1 2 3 4] Delete_ext [OF ok 5] pres_close)
  qed
  then show ?thesis by (simp add: actuator_Reconcile actuator_Delete)
qed

theorem actuator_and_cluster_untouched_witness:
  "actuator (snd (Reconcile (demo_env (Some ReconcileNetwork)) demo_state)) = \<lparr>Deployer = 1, client = 2\<rparr> \<and>
   actuator (snd (Delete (demo_env (Some ReconcileNetwork)) demo_state)) = \<lparr>Deployer = 1, client = 2\<rparr> \<and>
   cluster (snd (Reconcile (demo_env (Some ReconcileNetwork)) demo_state))
     = \<lparr>Name = ''c1'', Spec = ''spec'', Status = ''status''\<rparr> \<and>
   cluster (snd (Delete (demo_env (Some ReconcileNetwork)) demo_state))
     = \<lparr>Name = ''c1'', Spec = ''spec'', Status = ''status''\<rparr>"
  using actuator_and_cluster_untouched
      [of "\<lambda>h. fst h = cluster demo_state" "demo_env (Some ReconcileNetwork)" demo_state]
  by (simp add: demo_env_def ext_def demo_state_def)

subsection \<open>No scope, no release\<close>

text \<open>
  C9. \<open>Reconcile\<close> and \<open>Delete\<close> release no scope exactly when scope construction
  failed: zero releases on failure, and a release whenever a scope was acquired.
\<close>

theorem Close_iff_scope_acquired:
  "(closes (emitted s (snd (Reconcile env s))) = [])
     = isl (fst (actuators_NewScope env \<lparr>Client = client (actuator s)\<rparr> (ext s))) \<and>
   (closes (emitted s (snd (Delete env s))) = [])
     = isl (fst (actuators_NewScope env \<lparr>Client = client (actuator s)\<rparr> (ext s)))"
proof -
  obtain r h1 where b0: "actuators_NewScope env \<lparr>Client = client (actuator s)\<rparr> (ext s) = (r, h1)"
    by (cases "actuators_NewScope env \<lparr>Client = client (actuator s)\<rparr> (ext s)")
  show ?thesis
  proof (cases r)
    case (Inl x)
    with b0 have no: "actuators_NewScope env \<lparr>Client = client (actuator s)\<rparr> (ext s) = (Inl x, h1)"
      by simp
    show ?thesis
      by (simp add: Reconcile_noscope [OF no] Delete_noscope [OF no] no)
  next
    case (Inr sc)
    with b0 have ok: "actuators_NewScope env \<lparr>Client = client (actuator s)\<rparr> (ext s) = (Inr sc, h1)"
      by simp
    obtain r1 h2 where b1: "service_op env (Service certificates sc) ReconcileCertificates h1 = (r1, h2)"
      by (cases "service_op env (Service certificates sc) ReconcileCertificates h1")
    obtain r2 h3 where b2: "service_op env (Service resources sc) ReconcileResourceGroup h2 = (r2, h3)"
      by (cases "service_op env (Service resources sc) ReconcileResourceGroup h2")
    obtain r3 h4 where b3: "service_op env (Service network sc) ReconcileNetwork h3 = (r3, h4)"
      by (cases "service_op env (Service network sc) ReconcileNetwork h3")
    obtain r4 h5 where b4: "service_op env (Service network sc) (ReconcileLoadBalancer ''api'') h4 = (r4, h5)"
      by (cases "service_op env (Service network sc) (ReconcileLoadBalancer ''api'') h4")
    obtain d h6 where b5: "service_op env (Service resources sc) DeleteResourceGroup h1 = (d, h6)"
      by (cases "service_op env (Service resources sc) DeleteResourceGroup h1")
    have "closes (emitted s (snd (Reconcile env s))) \<noteq> []"
      by (cases r1; cases r2; cases r3; cases r4; simp add: Reconcile_trace [OF ok b1 b2 b3 b4])
    moreover have "closes (emitted s (snd (Delete env s))) \<noteq> []"
      by (cases d; simp add: Delete_trace [OF ok b5])
    ultimately show ?thesis by (simp add: ok)
  qed
qed

theorem Close_iff_scope_acquired_witness:
  "isl (fst (actuators_NewScope demo_env_noscope \<lparr>Client = client (actuator demo_state)\<rparr>
              (ext demo_state))) \<and>
   closes (emitted demo_state (snd (Reconcile demo_env_noscope demo_state))) = [] \<and>
   closes (emitted demo_state (snd (Delete demo_env_noscope demo_state))) = []"
  using Close_iff_scope_acquired [of demo_state demo_env_noscope]
  by (simp add: demo_noscope)

subsection \<open>The delay\<close>

text \<open>
  C10. The delay of the requeue signal that \<open>Delete\<close> returns when resource-group
  deletion fails is 5,000,000,000 nanoseconds, as a signed 64-bit value.
\<close>

theorem requeue_delay_is_five_seconds:
  assumes "actuators_NewScope env \<lparr>Client = client (actuator s)\<rparr> (ext s) = (Inr sc, h1)"
    and "service_op env (Service resources sc) DeleteResourceGroup h1 = (Some e, h2)"
  shows "map_option sint (Option.bind (fst (Delete env s)) RequeueAfter) = Some 5000000000"
  using Delete_result [OF assms] by simp

theorem requeue_delay_is_five_seconds_witness:
  "actuators_NewScope (demo_env (Some DeleteResourceGroup))
     \<lparr>Client = client (actuator demo_state)\<rparr> (ext demo_state)
     = (Inr 7, (cluster demo_state, 1)) \<and>
   service_op (demo_env (Some DeleteResourceGroup)) (Service resources 7)
     DeleteResourceGroup (cluster demo_state, 1)
     = (Some (Opaque ''boom''), (cluster demo_state, 2)) \<and>
   map_option sint
     (Option.bind (fst (Delete (demo_env (Some DeleteResourceGroup)) demo_state)) RequeueAfter)
     = Some 5000000000"
proof -
  have b0: "actuators_NewScope (demo_env (Some DeleteResourceGroup))
     \<lparr>Client = client (actuator demo_state)\<rparr> (ext demo_state)
     = (Inr 7, (cluster demo_state, 1))"
    by (simp add: demo_NewScope demo_state_def ext_def)
  have b1: "service_op (demo_env (Some DeleteResourceGroup)) (Service resources 7)
     DeleteResourceGroup (cluster demo_state, 1)
     = (Some (Opaque ''boom''), (cluster demo_state, 2))"
    by (simp add: demo_op)
  show ?thesis
    using b0 b1 requeue_delay_is_five_seconds [OF b0 b1] by simp
qed

end
